theory Spec2Isabelle
  imports Main
begin

section \<open>Python values\<close>

text \<open>
  The plugin handles three kinds of data. Configuration (endpoint settings, tool
  credentials, tool parameters) is declared as text by the plugin's schema and is
  modelled as optional strings. Data that arrives from outside (the webhook payload,
  the App's response, the body of the platform's HTTP response) is whatever
  \<^verbatim>\<open>json.loads\<close> produced and is modelled as a value of \<open>json\<close>, with the dynamic
  checks of Python written out: an attribute that is missing, a value that is not
  iterable or not hashable raises, and the exception is a result of the function.

  A Python \<^verbatim>\<open>str\<close> is a \<open>string\<close> holding its UTF-8 bytes, \<^verbatim>\<open>None\<close> and JSON
  \<^verbatim>\<open>null\<close> are \<open>JNull\<close>, a \<^verbatim>\<open>dict\<close> is an association list read with \<open>map_of\<close>.
  JSON numbers are integers; floating point numbers are not modelled.
\<close>

datatype json =
    JNull
  | JBool bool
  | JInt int
  | JStr string
  | JList "json list"
  | JObj "(string \<times> json) list"

datatype exn = AttributeError | TypeError | UnicodeError | ExternalError

text \<open>\<^verbatim>\<open>bool(x)\<close>, the test behind \<^verbatim>\<open>if x\<close>, \<^verbatim>\<open>not x\<close> and \<^verbatim>\<open>x or y\<close>.\<close>

fun truthy :: "json \<Rightarrow> bool" where
  "truthy JNull = False"
| "truthy (JBool b) = b"
| "truthy (JInt i) = (i \<noteq> 0)"
| "truthy (JStr s) = (s \<noteq> [])"
| "truthy (JList xs) = (xs \<noteq> [])"
| "truthy (JObj kvs) = (kvs \<noteq> [])"

definition py_or :: "json \<Rightarrow> json \<Rightarrow> json" where
  "py_or a b = (if truthy a then a else b)"

text \<open>\<^verbatim>\<open>x.get(k)\<close>: only a mapping has the method.\<close>

fun py_get :: "json \<Rightarrow> string \<Rightarrow> exn + json" where
  "py_get (JObj kvs) k = Inr (case map_of kvs k of None \<Rightarrow> JNull | Some v \<Rightarrow> v)"
| "py_get _ k = Inl AttributeError"

text \<open>\<^verbatim>\<open>x.get(k, [])\<close>: the default stands in for a missing key only.\<close>

fun py_get_list :: "json \<Rightarrow> string \<Rightarrow> exn + json" where
  "py_get_list (JObj kvs) k = Inr (case map_of kvs k of None \<Rightarrow> JList [] | Some v \<Rightarrow> v)"
| "py_get_list _ k = Inl AttributeError"

text \<open>\<^verbatim>\<open>x == n\<close> for an integer literal \<^verbatim>\<open>n\<close>; \<^verbatim>\<open>True\<close> and \<^verbatim>\<open>False\<close> compare as 1 and 0.\<close>

fun py_eq_int :: "json \<Rightarrow> int \<Rightarrow> bool" where
  "py_eq_int (JInt i) n = (i = n)"
| "py_eq_int (JBool b) n = ((if b then 1 else 0) = n)"
| "py_eq_int _ n = False"

text \<open>\<^verbatim>\<open>x == s\<close> for a string literal \<^verbatim>\<open>s\<close>.\<close>

fun py_eq_str :: "json \<Rightarrow> string \<Rightarrow> bool" where
  "py_eq_str (JStr t) s = (t = s)"
| "py_eq_str _ s = False"

text \<open>\<^verbatim>\<open>sub in s\<close> on two strings: \<^verbatim>\<open>sub\<close> occurs in \<^verbatim>\<open>s\<close> as a contiguous run.\<close>

fun str_contains :: "string \<Rightarrow> string \<Rightarrow> bool" where
  "str_contains sub [] = (sub = [])"
| "str_contains sub (c # cs) = (take (length sub) (c # cs) = sub \<or> str_contains sub cs)"

text \<open>
  \<^verbatim>\<open>s in x\<close> for a string literal \<^verbatim>\<open>s\<close>: a key of a mapping, an element of a list,
  a substring of a string; anything else is not iterable.
\<close>

fun py_in :: "string \<Rightarrow> json \<Rightarrow> exn + bool" where
  "py_in s (JObj kvs) = Inr (s \<in> set (map fst kvs))"
| "py_in s (JList xs) = Inr (list_ex (\<lambda>x. py_eq_str x s) xs)"
| "py_in s (JStr t) = Inr (str_contains s t)"
| "py_in s _ = Inl TypeError"

text \<open>
  \<^verbatim>\<open>x in {n1, n2, ...}\<close> for a set of integer literals: the lookup hashes \<^verbatim>\<open>x\<close>
  first, and lists and dictionaries are unhashable.
\<close>

fun py_in_int_set :: "json \<Rightarrow> int list \<Rightarrow> exn + bool" where
  "py_in_int_set (JList xs) ns = Inl TypeError"
| "py_in_int_set (JObj kvs) ns = Inl TypeError"
| "py_in_int_set x ns = Inr (list_ex (py_eq_int x) ns)"

subsection \<open>Strings\<close>

text \<open>
  A character of a \<^verbatim>\<open>str\<close> is a lead byte followed by its continuation bytes
  (\<open>0x80\<close> to \<open>0xBF\<close>). \<open>utf8_chars\<close> cuts a string into its characters.
\<close>

definition is_cont :: "char \<Rightarrow> bool" where
  "is_cont c = (128 \<le> (of_char c :: nat) \<and> (of_char c :: nat) < 192)"

fun utf8_step :: "char \<Rightarrow> string \<times> string list \<Rightarrow> string \<times> string list" where
  "utf8_step b (pend, cs) = (if is_cont b then (b # pend, cs) else ([], (b # pend) # cs))"

definition utf8_chars :: "string \<Rightarrow> string list" where
  "utf8_chars s = (case foldr utf8_step s ([], []) of
     (pend, cs) \<Rightarrow> if pend = [] then cs else pend # cs)"

text \<open>
  The strict UTF-8 decoder of \<^verbatim>\<open>bytes.decode('utf-8')\<close> accepts a character when it
  is the shortest encoding of a code point up to \<open>U+10FFFF\<close> that is no surrogate.
\<close>

definition in_range :: "nat \<Rightarrow> nat \<Rightarrow> char \<Rightarrow> bool" where
  "in_range lo hi c = (lo \<le> of_char c \<and> of_char c \<le> hi)"

fun valid_char :: "string \<Rightarrow> bool" where
  "valid_char [a] = in_range 0 127 a"
| "valid_char [a, b] = (in_range 194 223 a \<and> is_cont b)"
| "valid_char [a, b, c] =
     ((if of_char a = (224::nat) then in_range 160 191 b
       else if of_char a = (237::nat) then in_range 128 159 b
       else in_range 225 239 a \<and> is_cont b) \<and> is_cont c)"
| "valid_char [a, b, c, d] =
     ((if of_char a = (240::nat) then in_range 144 191 b
       else if of_char a = (244::nat) then in_range 128 143 b
       else in_range 241 243 a \<and> is_cont b) \<and> is_cont c \<and> is_cont d)"
| "valid_char _ = False"

definition valid_utf8 :: "string \<Rightarrow> bool" where
  "valid_utf8 s = list_all valid_char (utf8_chars s)"

definition decode_utf8 :: "string \<Rightarrow> exn + string" where
  "decode_utf8 raw = (if valid_utf8 raw then Inr raw else Inl UnicodeError)"

definition encode_utf8 :: "string \<Rightarrow> exn + string" where
  "encode_utf8 s = (if valid_utf8 s then Inr s else Inl UnicodeError)"

text \<open>
  \<^verbatim>\<open>str.strip()\<close> removes the leading and the trailing characters that Python counts
  as whitespace: \<open>U+0009\<close> to \<open>U+000D\<close>, \<open>U+001C\<close> to \<open>U+0020\<close>, \<open>U+0085\<close>, \<open>U+00A0\<close>,
  \<open>U+1680\<close>, \<open>U+2000\<close> to \<open>U+200A\<close>, \<open>U+2028\<close>, \<open>U+2029\<close>, \<open>U+202F\<close>, \<open>U+205F\<close>, \<open>U+3000\<close>,
  given here by their UTF-8 bytes.
\<close>

definition py_isspace :: "string \<Rightarrow> bool" where
  "py_isspace ch = (case map of_char ch of
       [a] \<Rightarrow> (9 \<le> a \<and> a \<le> 13) \<or> (28 \<le> a \<and> a \<le> (32::nat))
     | [a, b] \<Rightarrow> a = 194 \<and> (b = 133 \<or> b = 160)
     | [a, b, c] \<Rightarrow>
         (a = 225 \<and> b = 154 \<and> c = 128) \<or>
         (a = 226 \<and> b = 128 \<and> ((128 \<le> c \<and> c \<le> 138) \<or> c = 168 \<or> c = 169 \<or> c = 175)) \<or>
         (a = 226 \<and> b = 129 \<and> c = 159) \<or>
         (a = 227 \<and> b = 128 \<and> c = 128)
     | _ \<Rightarrow> False)"

definition strip :: "string \<Rightarrow> string" where
  "strip s = concat (rev (dropWhile py_isspace (rev (dropWhile py_isspace (utf8_chars s)))))"

text \<open>\<^verbatim>\<open>(d.get(k) or "").strip()\<close> on a dictionary of strings.\<close>

definition get_stripped :: "(string \<rightharpoonup> string) \<Rightarrow> string \<Rightarrow> string" where
  "get_stripped d k = strip (case d k of None \<Rightarrow> [] | Some v \<Rightarrow> v)"

text \<open>\<^verbatim>\<open>s[:n]\<close>: the first \<open>n\<close> characters.\<close>

definition py_take :: "nat \<Rightarrow> string \<Rightarrow> string" where
  "py_take n s = concat (take n (utf8_chars s))"

text \<open>\<^verbatim>\<open>str(i)\<close> for an integer.\<close>

fun dec :: "nat \<Rightarrow> string" where
  "dec n = (if n < 10 then [char_of (48 + n)] else dec (n div 10) @ [char_of (48 + n mod 10)])"

definition str_int :: "int \<Rightarrow> string" where
  "str_int i = (if i < 0 then CHR ''-'' # dec (nat (- i)) else dec (nat i))"

text \<open>
  \<^verbatim>\<open>str(x)\<close>, also what an f-string does with \<^verbatim>\<open>{x}\<close>. The text Python prints for a
  list or a dictionary is left open: \<open>repr\<close> is a parameter of the model.
\<close>

fun py_str :: "(json \<Rightarrow> string) \<Rightarrow> json \<Rightarrow> string" where
  "py_str repr JNull = ''None''"
| "py_str repr (JBool b) = (if b then ''True'' else ''False'')"
| "py_str repr (JInt i) = str_int i"
| "py_str repr (JStr s) = s"
| "py_str repr x = repr x"

text \<open>
  Iteration: a list gives its elements, a dictionary its keys, a string its
  characters; nothing else is iterable.
\<close>

fun py_iter :: "json \<Rightarrow> exn + json list" where
  "py_iter (JList xs) = Inr xs"
| "py_iter (JObj kvs) = Inr (map (\<lambda>kv. JStr (fst kv)) kvs)"
| "py_iter (JStr s) = Inr (map JStr (utf8_chars s))"
| "py_iter _ = Inl TypeError"

declare dec.simps [simp del]

text \<open>Sequencing of computations that may raise: the first exception ends the run.\<close>

fun and_then :: "exn + 'a \<Rightarrow> ('a \<Rightarrow> exn + 'b) \<Rightarrow> exn + 'b" where
  "and_then (Inl e) f = Inl e"
| "and_then (Inr x) f = f x"

section \<open>The direct-send tool (\<^verbatim>\<open>tools/send_message.py\<close>)\<close>

record http_request =
  req_url :: string
  req_headers :: "(string \<times> string) list"
  req_json :: json
  req_timeout :: nat

text \<open>
  A response of the platform: its status, what \<^verbatim>\<open>resp.json()\<close> gives (\<open>None\<close> when it
  raises) and \<^verbatim>\<open>resp.text\<close>.
\<close>

record http_response =
  status_code :: int
  resp_json :: "json option"
  resp_text :: string

datatype log_status = SUCCESS | ERROR

text \<open>
  What the generator yields. The log of the \<^verbatim>\<open>except\<close> branch carries \<^verbatim>\<open>str(e)\<close>;
  the model keeps the exception itself.
\<close>

datatype tool_message =
    LogMessage string json "log_status option"
  | ExceptionLog exn
  | TextMessage string
  | JsonMessage json

definition safe_json :: "http_response \<Rightarrow> json" where
  "safe_json resp = (case resp_json resp of
       Some b \<Rightarrow> b
     | None \<Rightarrow> JObj [(''text'', JStr (py_take 500 (resp_text resp)))])"

definition extract_api_error :: "json \<Rightarrow> exn + json option" where
  "extract_api_error body = (case body of
       JObj kvs \<Rightarrow>
         (case map_of kvs ''error'' of
            None \<Rightarrow> Inr None
          | Some v \<Rightarrow>
              (let err = py_or v (JObj []) in
               and_then (py_get err ''code'') (\<lambda>code.
               and_then (py_get err ''type'') (\<lambda>type.
               and_then (py_get err ''message'') (\<lambda>message.
               and_then (py_get err ''error_subcode'') (\<lambda>error_subcode.
               Inr (Some (JObj [(''code'', code), (''type'', type), (''message'', message),
                                (''error_subcode'', error_subcode)]))))))))
     | _ \<Rightarrow> Inr None)"

definition hint_token :: string where
  "hint_token = ''Invalid or expired access token. Recreate a system user token with proper permissions.''"

definition hint_parameters :: string where
  "hint_parameters = ''Invalid parameters. Verify 'phone_number_id' and that 'to' is a valid international number.''"

definition hint_opt_in :: string where
  "hint_opt_in = ''Recipient has not messaged your business recently or is not opted-in. '' @
     ''Ensure a recent user-initiated session or use an approved template.''"

definition hint_mismatch :: string where
  "hint_mismatch = ''Check that the phone_number_id belongs to your app and Business Account.''"

definition hint_generic :: string where
  "hint_generic = ''Check Business Account setup, permissions (whatsapp_business_messaging), and recipient format (E.164 without '+').''"

definition suggest_fix :: "json \<Rightarrow> exn + string" where
  "suggest_fix api_error =
     and_then (py_get api_error ''code'') (\<lambda>code.
     and_then (py_get api_error ''error_subcode'') (\<lambda>subcode.
     and_then (py_get api_error ''message'') (\<lambda>m.
     let message = py_or m (JStr []) in
     if py_eq_int code 190 then Inr hint_token
     else if py_eq_int code 100 then Inr hint_parameters
     else and_then (py_in_int_set subcode [2018049, 131000, 131031]) (\<lambda>listed.
       if listed then Inr hint_opt_in
       else and_then (py_in ''Unsupported post request'' message) (\<lambda>unsupported.
         if unsupported then Inr hint_mismatch else Inr hint_generic)))))"

text \<open>\<^verbatim>\<open>re.sub(r"[^0-9]", "", to_raw)\<close>: every character outside \<open>0\<close> to \<open>9\<close> goes.\<close>

definition is_digit :: "char \<Rightarrow> bool" where
  "is_digit c = in_range 48 57 c"

definition normalize_recipient :: "string \<Rightarrow> string" where
  "normalize_recipient to_raw = filter is_digit to_raw"

text \<open>The summary line of a successful send; its \<^verbatim>\<open>try\<close> falls back to the plain line.\<close>

definition wa_message_id :: "json \<Rightarrow> exn + json" where
  "wa_message_id body = (case body of
       JObj kvs \<Rightarrow>
         and_then (py_get body ''messages'') (\<lambda>ms.
           case py_or ms (JList []) of
             JList (m # rest) \<Rightarrow> py_get m ''id''
           | _ \<Rightarrow> Inr JNull)
     | _ \<Rightarrow> Inr JNull)"

definition summary :: "(json \<Rightarrow> string) \<Rightarrow> string \<Rightarrow> json \<Rightarrow> string" where
  "summary repr to body = (case wa_message_id body of
       Inl e \<Rightarrow> ''sent to '' @ to
     | Inr w \<Rightarrow> ''sent to '' @ to @ (if truthy w then '' (id: '' @ py_str repr w @ '')'' else []))"

text \<open>
  The body of the \<^verbatim>\<open>try\<close> after the POST: the messages yielded, and the exception that
  ended it, if any.
\<close>

definition after_post :: "(json \<Rightarrow> string) \<Rightarrow> string \<Rightarrow> exn + http_response
    \<Rightarrow> tool_message list \<times> exn option" where
  "after_post repr to result = (case result of
       Inl e \<Rightarrow> ([], Some e)
     | Inr resp \<Rightarrow>
         (let body = safe_json resp;
              ok = (200 \<le> status_code resp \<and> status_code resp < 300);
              log = LogMessage ''send_response''
                      (JObj [(''status_code'', JInt (status_code resp)), (''body'', body)])
                      (Some (if ok then SUCCESS else ERROR))
          in if ok then
               ([log,
                 JsonMessage (JObj [(''result'', JStr ''sent''), (''to'', JStr to), (''response'', body)]),
                 TextMessage (summary repr to body)], None)
             else (case extract_api_error body of
                 Inl e \<Rightarrow> ([log], Some e)
               | Inr None \<Rightarrow>
                   ([log, TextMessage (''Failed to send message: HTTP '' @ str_int (status_code resp))], None)
               | Inr (Some api_error) \<Rightarrow>
                   (case suggest_fix api_error of
                      Inl e \<Rightarrow> ([log], Some e)
                    | Inr hint \<Rightarrow>
                        ([log, JsonMessage (JObj [(''error'', api_error), (''hint'', JStr hint)])], None)))))"

definition messages_url :: "string \<Rightarrow> string" where
  "messages_url phone_number_id = ''https://graph.facebook.com/v24.0/'' @ phone_number_id @ ''/messages''"

definition send_headers :: "string \<Rightarrow> (string \<times> string) list" where
  "send_headers access_token =
     [(''Authorization'', ''Bearer '' @ access_token), (''Content-Type'', ''application/json'')]"

definition text_payload :: "json \<Rightarrow> json \<Rightarrow> json" where
  "text_payload to body_text =
     JObj [(''messaging_product'', JStr ''whatsapp''), (''to'', to), (''type'', JStr ''text''),
           (''text'', JObj [(''body'', body_text)])]"

text \<open>
  \<^verbatim>\<open>SendMessageTool._invoke\<close>: the messages the generator yields and the POST requests
  it issues. \<open>post\<close> is the platform: the response to a request, or the exception
  \<^verbatim>\<open>requests.post\<close> raises.
\<close>

definition send_message_invoke ::
  "(json \<Rightarrow> string) \<Rightarrow> (http_request \<Rightarrow> exn + http_response) \<Rightarrow>
   (string \<rightharpoonup> string) \<Rightarrow> (string \<rightharpoonup> string) \<Rightarrow> tool_message list \<times> http_request list" where
  "send_message_invoke repr post credentials tool_parameters =
     (let access_token = get_stripped credentials ''access_token'';
          phone_number_id = get_stripped credentials ''phone_number_id'';
          to_raw = get_stripped tool_parameters ''to'';
          text = get_stripped tool_parameters ''text''
      in if access_token = [] \<or> phone_number_id = [] then
           ([LogMessage ''credentials''
               (JObj [(''error'', JStr ''Missing credentials''),
                      (''have_access_token'', JBool (access_token \<noteq> [])),
                      (''have_phone_number_id'', JBool (phone_number_id \<noteq> []))])
               (Some ERROR),
             TextMessage ''Configuration error: missing WhatsApp credentials''], [])
         else if to_raw = [] \<or> text = [] then
           ([LogMessage ''parameters''
               (JObj [(''error'', JStr ''Missing required parameters''),
                      (''to'', JBool (to_raw \<noteq> [])), (''text'', JBool (text \<noteq> []))])
               (Some ERROR),
             TextMessage ''Missing required parameters: to, text''], [])
         else
           (let to = normalize_recipient to_raw;
                request = \<lparr>req_url = messages_url phone_number_id,
                           req_headers = send_headers access_token,
                           req_json = text_payload (JStr to) (JStr text),
                           req_timeout = 20\<rparr>;
                request_log = LogMessage ''send_request''
                                (JObj [(''url'', JStr (messages_url phone_number_id)), (''to'', JStr to)]) None
            in (case after_post repr to (post request) of
                  (ms, None) \<Rightarrow> (request_log # ms, [request])
                | (ms, Some e) \<Rightarrow>
                    (request_log # ms @
                       [ExceptionLog e, TextMessage ''Failed to send message due to exception''],
                     [request]))))"

section \<open>The webhook endpoint (\<^verbatim>\<open>endpoints/whatsapp-bot.py\<close>)\<close>

record response =
  content :: string
  status :: nat
  content_type :: string

text \<open>
  The body of a request, as \<^verbatim>\<open>r.get_json(silent=True)\<close> sees it: JSON text that
  parses to a value; anything else (text that does not parse, another content type),
  for which the \<^verbatim>\<open>silent\<close> flag makes the call return \<^verbatim>\<open>None\<close>; or a body that cannot
  be read at all, where the call raises whatever the flag.
\<close>

datatype request_body = Json json | NotJson | Unreadable

definition get_json_silent :: "request_body \<Rightarrow> exn + json" where
  "get_json_silent b = (case b of
       Json v \<Rightarrow> Inr v
     | NotJson \<Rightarrow> Inr JNull
     | Unreadable \<Rightarrow> Inl ExternalError)"

record request =
  http_method :: string
  args :: "string \<rightharpoonup> string"
  json_body :: request_body

text \<open>
  The \<^verbatim>\<open>app\<close> setting is a dictionary of strings or a string; the textual settings
  (\<^verbatim>\<open>access_token\<close>, \<^verbatim>\<open>phone_number_id\<close>, \<^verbatim>\<open>verify_token\<close>) are a dictionary of
  strings.
\<close>

datatype app_setting =
    AppUnset
  | AppStr string
  | AppMapping "(string \<times> string) list"
  | AppOther

record settings =
  config :: "string \<rightharpoonup> string"
  app :: app_setting

text \<open>\<^verbatim>\<open>d.get(k1) or d.get(k2) or ''\<close> on a dictionary of strings.\<close>

definition get_either :: "(string \<rightharpoonup> string) \<Rightarrow> string \<Rightarrow> string \<Rightarrow> string" where
  "get_either d k1 k2 = (case d k1 of
       Some v \<Rightarrow> if v \<noteq> [] then v else (case d k2 of Some u \<Rightarrow> u | None \<Rightarrow> [])
     | None \<Rightarrow> (case d k2 of Some u \<Rightarrow> u | None \<Rightarrow> []))"

definition forbidden :: response where
  "forbidden = \<lparr>content = ''Forbidden'', status = 403, content_type = ''text/plain''\<rparr>"

definition handle_verify :: "request \<Rightarrow> settings \<Rightarrow> response" where
  "handle_verify r s =
     (let mode = strip (get_either (args r) ''hub.mode'' ''mode'');
          token = strip (get_either (args r) ''hub.verify_token'' ''verify_token'');
          expected_token = get_stripped (config s) ''verify_token''
      in case args r ''hub.challenge'' of
           Some challenge \<Rightarrow>
             if mode = ''subscribe'' \<and> expected_token \<noteq> [] \<and> token = expected_token
             then \<lparr>content = challenge, status = 200, content_type = ''text/plain''\<rparr>
             else forbidden
         | None \<Rightarrow> forbidden)"

definition extract_text :: "json \<Rightarrow> exn + json" where
  "extract_text message =
     and_then (py_get message ''type'') (\<lambda>message_type.
       if py_eq_str message_type ''text''
       then and_then (py_get message ''text'') (\<lambda>t. py_get (py_or t (JObj [])) ''body'')
       else Inr JNull)"

definition get_app_id :: "app_setting \<Rightarrow> string option" where
  "get_app_id app_setting = (case app_setting of
       AppUnset \<Rightarrow> None
     | AppStr s \<Rightarrow> if strip s = [] then None else Some (strip s)
     | AppMapping kvs \<Rightarrow>
         (let app_id = strip (get_either (map_of kvs) ''app_id'' ''id'')
          in if app_id = [] then None else Some app_id)
     | AppOther \<Rightarrow> None)"

subsection \<open>The collaborators\<close>

text \<open>
  The Conversation Store holds bytes under string keys. The trace lists, in order,
  every call that leaves the plugin: reads and writes of the store, invocations of the
  App with their keyword arguments, POST requests to the platform.
\<close>

datatype event =
    StorageGet string
  | StorageSet string string
  | ChatInvoke json
  | HttpPost http_request

record world =
  store :: "string \<rightharpoonup> string"
  trace :: "event list"

text \<open>
  What the collaborators do during one invocation of the App Bridge: whether the read
  and the write of the store raise, and what the App returns (or raises) for its
  keyword arguments. \<open>py_repr\<close> is the text Python prints for lists and dictionaries.
\<close>

record env =
  storage_get_raises :: bool
  storage_set_raises :: bool
  chat_invoke :: "json \<Rightarrow> exn + json"
  py_repr :: "json \<Rightarrow> string"

definition emit :: "event \<Rightarrow> world \<Rightarrow> world" where
  "emit e w = w\<lparr>trace := trace w @ [e]\<rparr>"

text \<open>The first \<^verbatim>\<open>try\<close> of \<^verbatim>\<open>_invoke_app_reply\<close>: the stored continuity token, if any.\<close>

definition read_conversation_id :: "env \<Rightarrow> world \<Rightarrow> string \<Rightarrow> string option" where
  "read_conversation_id env w conversation_key =
     (if storage_get_raises env then None
      else case store w conversation_key of
             None \<Rightarrow> None
           | Some raw \<Rightarrow>
               if raw = [] then None
               else (case decode_utf8 raw of Inl e \<Rightarrow> None | Inr s \<Rightarrow> Some s))"

definition build_invoke_params :: "string \<Rightarrow> json \<Rightarrow> json \<Rightarrow> string option \<Rightarrow> json" where
  "build_invoke_params app_id query identify_inputs conversation_id =
     JObj ([(''app_id'', JStr app_id), (''query'', query), (''inputs'', identify_inputs),
            (''response_mode'', JStr ''blocking'')] @
           (case conversation_id of
              None \<Rightarrow> []
            | Some c \<Rightarrow> if c \<noteq> [] then [(''conversation_id'', JStr c)] else []))"

text \<open>The second inner \<^verbatim>\<open>try\<close>: the write of the new token, failures swallowed.\<close>

definition save_conversation_id :: "env \<Rightarrow> string \<Rightarrow> json \<Rightarrow> world \<Rightarrow> world" where
  "save_conversation_id env conversation_key new_conversation_id w =
     (if truthy new_conversation_id then
        (case encode_utf8 (py_str (py_repr env) new_conversation_id) of
           Inl e \<Rightarrow> w
         | Inr bytes \<Rightarrow>
             (let w' = emit (StorageSet conversation_key bytes) w
              in if storage_set_raises env then w'
                 else w'\<lparr>store := (store w')(conversation_key \<mapsto> bytes)\<rparr>))
      else w)"

definition invoke_app_reply ::
  "env \<Rightarrow> world \<Rightarrow> string \<Rightarrow> json \<Rightarrow> json \<Rightarrow> string \<Rightarrow> string option \<times> world" where
  "invoke_app_reply env w app_id query identify_inputs conversation_key =
     (let conversation_id = read_conversation_id env w conversation_key;
          w1 = emit (StorageGet conversation_key) w;
          invoke_params = build_invoke_params app_id query identify_inputs conversation_id;
          w2 = emit (ChatInvoke invoke_params) w1
      in case chat_invoke env invoke_params of
           Inl e \<Rightarrow> (None, w2)
         | Inr result \<Rightarrow>
             (case result of
                JObj kvs \<Rightarrow>
                  (let get = (\<lambda>k. case map_of kvs k of None \<Rightarrow> JNull | Some v \<Rightarrow> v);
                       answer = py_or (py_or (get ''answer'') (get ''output_text'')) (get ''message'');
                       w3 = save_conversation_id env conversation_key (get ''conversation_id'') w2
                   in (if answer = JNull then None else Some (py_str (py_repr env) answer), w3))
              | _ \<Rightarrow> (None, w2)))"

definition send_whatsapp_text :: "string \<Rightarrow> string \<Rightarrow> json \<Rightarrow> json \<Rightarrow> world \<Rightarrow> world" where
  "send_whatsapp_text access_token phone_number_id to_wa_id body_text w =
     emit (HttpPost \<lparr>req_url = messages_url phone_number_id,
                     req_headers = send_headers access_token,
                     req_json = text_payload to_wa_id body_text,
                     req_timeout = 10\<rparr>) w"

definition ok :: response where
  "ok = \<lparr>content = ''ok'', status = 200, content_type = ''text/plain''\<rparr>"

definition bad_request :: response where
  "bad_request = \<lparr>content = ''Bad Request'', status = 400, content_type = ''text/plain''\<rparr>"

definition method_not_allowed :: response where
  "method_not_allowed = \<lparr>content = ''Method Not Allowed'', status = 405, content_type = ''text/plain''\<rparr>"

subsection \<open>The walk over entries, changes and messages\<close>

text \<open>
  The body of the innermost loop. It returns the exception that left it, if any,
  and the world with what was done before.
\<close>

definition conversation_key_of :: "(json \<Rightarrow> string) \<Rightarrow> string \<Rightarrow> json \<Rightarrow> string" where
  "conversation_key_of repr phone_number_id sender_wa_id =
     ''whatsapp:'' @ phone_number_id @ '':'' @ py_str repr sender_wa_id"

definition bridge_reply ::
  "env \<Rightarrow> world \<Rightarrow> string option \<Rightarrow> string \<Rightarrow> json \<Rightarrow> json \<Rightarrow> string option \<times> world" where
  "bridge_reply env w app_id phone_number_id sender_wa_id text_body = (case app_id of
       None \<Rightarrow> (None, w)
     | Some a \<Rightarrow>
         if a = [] then (None, w)
         else invoke_app_reply env w a text_body
                (JObj [(''whatsapp_user_id'', sender_wa_id), (''phone_number_id'', JStr phone_number_id)])
                (conversation_key_of (py_repr env) phone_number_id sender_wa_id))"

definition fallback :: "string option \<Rightarrow> json \<Rightarrow> json" where
  "fallback reply_text text_body = (case reply_text of
       None \<Rightarrow> text_body
     | Some r \<Rightarrow> if r = [] then text_body else JStr r)"

definition process_message ::
  "env \<Rightarrow> string \<Rightarrow> string \<Rightarrow> string option \<Rightarrow> json \<Rightarrow> world \<Rightarrow> exn option \<times> world" where
  "process_message env access_token phone_number_id app_id message w =
     (case py_get message ''from'' of
        Inl e \<Rightarrow> (Some e, w)
      | Inr sender_wa_id \<Rightarrow>
          (case extract_text message of
             Inl e \<Rightarrow> (Some e, w)
           | Inr text_body \<Rightarrow>
               if \<not> truthy sender_wa_id \<or> text_body = JNull then (None, w)
               else (case bridge_reply env w app_id phone_number_id sender_wa_id text_body of
                  (reply, w1) \<Rightarrow>
                    (let reply_text = fallback reply text_body;
                         can_reply = (access_token \<noteq> [] \<and> phone_number_id \<noteq> [])
                     in if can_reply \<and> truthy reply_text
                        then (None, send_whatsapp_text access_token phone_number_id
                                      sender_wa_id reply_text w1)
                        else (None, w1)))))"

text \<open>
  The loops. \<open>envs\<close> gives the collaborators' behaviour for the next message from
  everything that has happened so far. An exception leaves all the loops at once.
\<close>

fun process_messages ::
  "(world \<Rightarrow> env) \<Rightarrow> string \<Rightarrow> string \<Rightarrow> string option \<Rightarrow> json list \<Rightarrow> world \<Rightarrow> exn option \<times> world" where
  "process_messages envs access_token phone_number_id app_id [] w = (None, w)"
| "process_messages envs access_token phone_number_id app_id (message # rest) w =
     (case process_message (envs w) access_token phone_number_id app_id message w of
        (Some e, w') \<Rightarrow> (Some e, w')
      | (None, w') \<Rightarrow> process_messages envs access_token phone_number_id app_id rest w')"

definition process_change ::
  "(world \<Rightarrow> env) \<Rightarrow> string \<Rightarrow> string \<Rightarrow> string option \<Rightarrow> json \<Rightarrow> world \<Rightarrow> exn option \<times> world" where
  "process_change envs access_token phone_number_id app_id change w =
     (case and_then (py_get change ''value'') (\<lambda>v.
           and_then (py_get (py_or v (JObj [])) ''messages'') (\<lambda>ms.
           py_iter (py_or ms (JList [])))) of
        Inl e \<Rightarrow> (Some e, w)
      | Inr messages \<Rightarrow> process_messages envs access_token phone_number_id app_id messages w)"

fun process_changes ::
  "(world \<Rightarrow> env) \<Rightarrow> string \<Rightarrow> string \<Rightarrow> string option \<Rightarrow> json list \<Rightarrow> world \<Rightarrow> exn option \<times> world" where
  "process_changes envs access_token phone_number_id app_id [] w = (None, w)"
| "process_changes envs access_token phone_number_id app_id (change # rest) w =
     (case process_change envs access_token phone_number_id app_id change w of
        (Some e, w') \<Rightarrow> (Some e, w')
      | (None, w') \<Rightarrow> process_changes envs access_token phone_number_id app_id rest w')"

definition process_entry ::
  "(world \<Rightarrow> env) \<Rightarrow> string \<Rightarrow> string \<Rightarrow> string option \<Rightarrow> json \<Rightarrow> world \<Rightarrow> exn option \<times> world" where
  "process_entry envs access_token phone_number_id app_id entry w =
     (case and_then (py_get_list entry ''changes'') py_iter of
        Inl e \<Rightarrow> (Some e, w)
      | Inr changes \<Rightarrow> process_changes envs access_token phone_number_id app_id changes w)"

fun process_entries ::
  "(world \<Rightarrow> env) \<Rightarrow> string \<Rightarrow> string \<Rightarrow> string option \<Rightarrow> json list \<Rightarrow> world \<Rightarrow> exn option \<times> world" where
  "process_entries envs access_token phone_number_id app_id [] w = (None, w)"
| "process_entries envs access_token phone_number_id app_id (entry # rest) w =
     (case process_entry envs access_token phone_number_id app_id entry w of
        (Some e, w') \<Rightarrow> (Some e, w')
      | (None, w') \<Rightarrow> process_entries envs access_token phone_number_id app_id rest w')"

text \<open>
  \<^verbatim>\<open>_handle_webhook\<close>: the response, or the exception that leaves the handler, and
  the world afterwards. The test for \<^verbatim>\<open>entry\<close> stands outside the \<^verbatim>\<open>try\<close> that
  swallows the errors of the walk.
\<close>

definition handle_webhook ::
  "(world \<Rightarrow> env) \<Rightarrow> settings \<Rightarrow> request_body \<Rightarrow> world \<Rightarrow> (exn + response) \<times> world" where
  "handle_webhook envs s b w = (case get_json_silent b of
       Inl e \<Rightarrow> (Inr bad_request, w)
     | Inr parsed \<Rightarrow>
         (let payload = py_or parsed (JObj []);
              access_token = get_stripped (config s) ''access_token'';
              phone_number_id = get_stripped (config s) ''phone_number_id'';
              app_id = get_app_id (app s)
          in if \<not> truthy payload then (Inr ok, w)
             else (case py_in ''entry'' payload of
                 Inl e \<Rightarrow> (Inl e, w)
               | Inr present \<Rightarrow>
                   if \<not> present then (Inr ok, w)
                   else (case and_then (py_get_list payload ''entry'') py_iter of
                       Inl e \<Rightarrow> (Inr ok, w)
                     | Inr entries \<Rightarrow>
                         (Inr ok, snd (process_entries envs access_token phone_number_id
                                         app_id entries w))))))"

text \<open>\<^verbatim>\<open>WhatsappBotEndpoint._invoke\<close>: the dispatch on the method.\<close>

definition endpoint_invoke ::
  "(world \<Rightarrow> env) \<Rightarrow> settings \<Rightarrow> request \<Rightarrow> world \<Rightarrow> (exn + response) \<times> world" where
  "endpoint_invoke envs s r w =
     (if http_method r = ''GET'' then (Inr (handle_verify r s), w)
      else if http_method r \<noteq> ''POST'' then (Inr method_not_allowed, w)
      else handle_webhook envs s (json_body r) w)"

section \<open>Notions used to state the properties\<close>

text \<open>The value under a key of a mapping, \<open>JNull\<close> when there is none.\<close>

fun field :: "json \<Rightarrow> string \<Rightarrow> json" where
  "field (JObj kvs) k = (case map_of kvs k of None \<Rightarrow> JNull | Some v \<Rightarrow> v)"
| "field _ k = JNull"

fun is_container :: "json \<Rightarrow> bool" where
  "is_container (JList xs) = True"
| "is_container (JObj kvs) = True"
| "is_container _ = False"

text \<open>Python's numbers among the JSON values: integers and the two booleans.\<close>

fun is_number :: "json \<Rightarrow> bool" where
  "is_number (JInt i) = True"
| "is_number (JBool b) = True"
| "is_number _ = False"

text \<open>
  The error-code table as the specification words it: the code is 190, else the
  code is 100, else the subcode is one of three numbers, else the message contains
  a phrase, otherwise the generic hint. A message contains the phrase as a part of
  its text, as an element when it is a list, as a key when it is a mapping.
\<close>

fun contains_phrase :: "json \<Rightarrow> bool" where
  "contains_phrase (JStr m) = str_contains ''Unsupported post request'' m"
| "contains_phrase (JList xs) = (JStr ''Unsupported post request'' \<in> set xs)"
| "contains_phrase (JObj kvs) = (''Unsupported post request'' \<in> set (map fst kvs))"
| "contains_phrase _ = False"

definition table_hint :: "json \<Rightarrow> json \<Rightarrow> json \<Rightarrow> string" where
  "table_hint code subcode message =
     (if code = JInt 190 then hint_token
      else if code = JInt 100 then hint_parameters
      else if subcode \<in> {JInt 2018049, JInt 131000, JInt 131031} then hint_opt_in
      else if contains_phrase message then hint_mismatch
      else hint_generic)"

text \<open>
  Where the lookup cannot be carried out: the code is neither 190 nor 100 and the
  subcode is a list or a mapping, or the subcode is none of the three numbers and the
  message is a number other than zero (or \<^verbatim>\<open>true\<close>).
\<close>

definition lookup_raises :: "json \<Rightarrow> json \<Rightarrow> json \<Rightarrow> bool" where
  "lookup_raises code subcode message =
     (code \<noteq> JInt 190 \<and> code \<noteq> JInt 100 \<and>
      (is_container subcode \<or>
       (subcode \<notin> {JInt 2018049, JInt 131000, JInt 131031} \<and> is_number message \<and>
        truthy message)))"

text \<open>
  The reply the App Bridge takes from a response mapping: the first of \<^verbatim>\<open>answer\<close>,
  \<^verbatim>\<open>output_text\<close>, \<^verbatim>\<open>message\<close> whose value is truthy; when none is, the value of
  \<^verbatim>\<open>message\<close>, whatever it is, and no reply when that is \<^verbatim>\<open>None\<close>.
\<close>

definition first_truthy :: "(json \<Rightarrow> string) \<Rightarrow> json \<Rightarrow> string option" where
  "first_truthy repr result =
     (if truthy (field result ''answer'') then Some (py_str repr (field result ''answer''))
      else if truthy (field result ''output_text'') then Some (py_str repr (field result ''output_text''))
      else if field result ''message'' = JNull then None
      else Some (py_str repr (field result ''message'')))"

text \<open>The POST requests among some events, and the events a step added to the trace.\<close>

fun posts :: "event list \<Rightarrow> http_request list" where
  "posts [] = []"
| "posts (HttpPost r # es) = r # posts es"
| "posts (e # es) = posts es"

definition new_events :: "world \<Rightarrow> world \<Rightarrow> event list" where
  "new_events w w' = drop (length (trace w)) (trace w')"

subsection \<open>Concrete inputs\<close>

definition repr_none :: "json \<Rightarrow> string" where
  "repr_none x = []"

definition credentials_ok :: "string \<rightharpoonup> string" where
  "credentials_ok = [''access_token'' \<mapsto> ''token'', ''phone_number_id'' \<mapsto> ''1234'']"

definition blank_to :: "string \<rightharpoonup> string" where
  "blank_to = [''to'' \<mapsto> '' '', ''text'' \<mapsto> ''hello'']"

definition letters_to :: "string \<rightharpoonup> string" where
  "letters_to = [''to'' \<mapsto> ''abc'', ''text'' \<mapsto> ''hello'']"

definition post_accepted :: "http_request \<Rightarrow> exn + http_response" where
  "post_accepted request =
     Inr \<lparr>status_code = 200, resp_json = Some (JObj []), resp_text = ''{}''\<rparr>"

definition empty_world :: world where
  "empty_world = \<lparr>store = Map.empty, trace = []\<rparr>"

definition bot_settings :: settings where
  "bot_settings = \<lparr>config = credentials_ok, app = AppStr ''app-1''\<rparr>"

definition echo_settings :: settings where
  "echo_settings = \<lparr>config = credentials_ok, app = AppUnset\<rparr>"

text \<open>An App that leaves \<^verbatim>\<open>answer\<close> empty and fills \<^verbatim>\<open>output_text\<close>.\<close>

definition blank_answer_env :: env where
  "blank_answer_env = \<lparr>storage_get_raises = False, storage_set_raises = False,
     chat_invoke = (\<lambda>p. Inr (JObj [(''answer'', JStr []), (''output_text'', JStr ''second'')])),
     py_repr = repr_none\<rparr>"

text \<open>An App that answers and opens a conversation.\<close>

definition hello_env :: env where
  "hello_env = \<lparr>storage_get_raises = False, storage_set_raises = False,
     chat_invoke = (\<lambda>p. Inr (JObj [(''answer'', JStr ''hello''), (''conversation_id'', JStr ''c-1'')])),
     py_repr = repr_none\<rparr>"

text \<open>
  An App whose conversation identifier is a lone surrogate (\<open>U+D800\<close>, bytes
  \<open>ED A0 80\<close>), which has no UTF-8 encoding, and one whose identifier is the number 0.
\<close>

definition surrogate_env :: env where
  "surrogate_env = \<lparr>storage_get_raises = False, storage_set_raises = False,
     chat_invoke = (\<lambda>p. Inr (JObj [(''answer'', JStr ''hello''),
                                     (''conversation_id'', JStr [CHR 0xED, CHR 0xA0, CHR 0x80])])),
     py_repr = repr_none\<rparr>"

definition zero_id_env :: env where
  "zero_id_env = \<lparr>storage_get_raises = False, storage_set_raises = False,
     chat_invoke = (\<lambda>p. Inr (JObj [(''answer'', JStr ''hello''), (''conversation_id'', JInt 0)])),
     py_repr = repr_none\<rparr>"

definition hello_envs :: "world \<Rightarrow> env" where
  "hello_envs w = hello_env"

text \<open>An App whose invocation fails.\<close>

definition failing_env :: env where
  "failing_env = \<lparr>storage_get_raises = False, storage_set_raises = False,
     chat_invoke = (\<lambda>p. Inl ExternalError), py_repr = repr_none\<rparr>"

definition text_message :: "string \<Rightarrow> json" where
  "text_message t = JObj [(''from'', JStr ''1555''), (''type'', JStr ''text''),
                          (''text'', JObj [(''body'', JStr t)])]"

definition event_payload :: "json \<Rightarrow> json" where
  "event_payload message =
     JObj [(''entry'', JList [JObj [(''changes'', JList [JObj [(''value'',
             JObj [(''messages'', JList [message])])]])]])]"

definition post_request :: "request_body \<Rightarrow> request" where
  "post_request b = \<lparr>http_method = ''POST'', args = Map.empty, json_body = b\<rparr>"

text \<open>The platform's answers of two scenarios of the specification.\<close>

definition post_sent :: "http_request \<Rightarrow> exn + http_response" where
  "post_sent request =
     Inr \<lparr>status_code = 200,
          resp_json = Some (JObj [(''messages'', JList [JObj [(''id'', JStr ''wamid.X'')]])]),
          resp_text = []\<rparr>"

definition post_expired :: "http_request \<Rightarrow> exn + http_response" where
  "post_expired request =
     Inr \<lparr>status_code = 400,
          resp_json = Some (JObj [(''error'', JObj [(''code'', JInt 190)])]),
          resp_text = []\<rparr>"

definition scenario_d_parameters :: "string \<rightharpoonup> string" where
  "scenario_d_parameters = [''to'' \<mapsto> ''+1 555-0100'', ''text'' \<mapsto> ''hello'']"

text \<open>No App behind the bridge: every invocation fails.\<close>

definition echo_envs :: "world \<Rightarrow> env" where
  "echo_envs w = failing_env"

section \<open>Properties of the direct-send tool\<close>

subsection \<open>Recipient normalization\<close>

lemma digit_codes:
  "48 \<le> n \<Longrightarrow> n \<le> 57 \<Longrightarrow> n \<in> of_char ` set ''0123456789''" for n :: nat
  by (simp; arith)

lemma is_digit_iff: "is_digit c \<longleftrightarrow> c \<in> set ''0123456789''"
proof
  assume "is_digit c"
  then have "(of_char c :: nat) \<in> of_char ` set ''0123456789''"
    by (simp only: is_digit_def in_range_def digit_codes)
  then show "c \<in> set ''0123456789''"
    by (simp only: inj_image_mem_iff [OF inj_of_char])
next
  assume "c \<in> set ''0123456789''"
  then show "is_digit c" by (auto simp: is_digit_def in_range_def)
qed

text \<open>
  C7. Normalizing a recipient twice is the same as normalizing it once; the result
  keeps, in order, exactly the characters of the input that are among \<open>0\<close> to \<open>9\<close>, so
  it holds decimal digits only; and \<^verbatim>\<open>+1 (555) 123-4567\<close> becomes \<^verbatim>\<open>15551234567\<close>.
\<close>

theorem recipient_normalization:
  "normalize_recipient (normalize_recipient x) = normalize_recipient x \<and>
   normalize_recipient x = filter (\<lambda>c. c \<in> set ''0123456789'') x \<and>
   set (normalize_recipient x) \<subseteq> set ''0123456789'' \<and>
   normalize_recipient ''+1 (555) 123-4567'' = ''15551234567''"
proof -
  have kept: "normalize_recipient x = filter (\<lambda>c. c \<in> set ''0123456789'') x"
    unfolding normalize_recipient_def by (rule filter_cong) (simp_all only: is_digit_iff)
  have example: "normalize_recipient ''+1 (555) 123-4567'' = ''15551234567''"
    by (simp add: normalize_recipient_def is_digit_def in_range_def)
  have idem: "normalize_recipient (normalize_recipient x) = normalize_recipient x"
    by (simp add: normalize_recipient_def)
  have digits: "set (normalize_recipient x) \<subseteq> set ''0123456789''"
    unfolding kept by auto
  from idem kept digits example show ?thesis by blast
qed

subsection \<open>Missing credentials and parameters\<close>

text \<open>
  C6. When the access token, the phone number id, \<^verbatim>\<open>to\<close> or \<^verbatim>\<open>text\<close> is empty after
  stripping whitespace (a missing key counts as empty), the tool issues no POST and
  its last message is the configuration error, when a credential is the empty one,
  and the parameter error otherwise.
\<close>

theorem missing_input_no_network:
  assumes "get_stripped credentials ''access_token'' = [] \<or>
           get_stripped credentials ''phone_number_id'' = [] \<or>
           get_stripped tool_parameters ''to'' = [] \<or>
           get_stripped tool_parameters ''text'' = []"
  shows "snd (send_message_invoke repr post credentials tool_parameters) = [] \<and>
         last (fst (send_message_invoke repr post credentials tool_parameters)) =
           TextMessage
             (if get_stripped credentials ''access_token'' = [] \<or>
                 get_stripped credentials ''phone_number_id'' = []
              then ''Configuration error: missing WhatsApp credentials''
              else ''Missing required parameters: to, text'')"
  using assms by (auto simp: send_message_invoke_def Let_def)

lemma strip_blank: "strip '' '' = []"
  by (simp add: strip_def utf8_chars_def is_cont_def py_isspace_def)

lemma strip_samples:
  "strip ''token'' = ''token''" "strip ''1234'' = ''1234''" "strip ''hello'' = ''hello''"
  "strip ''abc'' = ''abc''" "strip ''app-1'' = ''app-1''"
  by (simp_all add: strip_def utf8_chars_def is_cont_def py_isspace_def)

lemma stripped_samples:
  "get_stripped credentials_ok ''access_token'' = ''token''"
  "get_stripped credentials_ok ''phone_number_id'' = ''1234''"
  "get_stripped blank_to ''to'' = []"
  "get_stripped blank_to ''text'' = ''hello''"
  "get_stripped letters_to ''to'' = ''abc''"
  "get_stripped letters_to ''text'' = ''hello''"
  by (simp_all add: get_stripped_def credentials_ok_def blank_to_def letters_to_def
      strip_blank strip_samples)

theorem missing_input_no_network_witness:
  "get_stripped blank_to ''to'' = [] \<and>
   snd (send_message_invoke repr_none post_accepted credentials_ok blank_to) = [] \<and>
   last (fst (send_message_invoke repr_none post_accepted credentials_ok blank_to)) =
     TextMessage ''Missing required parameters: to, text''"
proof -
  have h: "get_stripped credentials_ok ''access_token'' = [] \<or>
           get_stripped credentials_ok ''phone_number_id'' = [] \<or>
           get_stripped blank_to ''to'' = [] \<or>
           get_stripped blank_to ''text'' = []"
    by (simp add: stripped_samples)
  show ?thesis
    using missing_input_no_network [OF h, of repr_none post_accepted]
    by (simp add: stripped_samples)
qed

subsection \<open>The parameter check and the normalization\<close>

lemma foldr_utf8_step: "foldr utf8_step s ([], []) = (pend, cs) \<Longrightarrow> pend @ concat cs = s"
proof (induction s arbitrary: pend cs)
  case Nil
  then show ?case by simp
next
  case (Cons b s)
  obtain p c where pc: "foldr utf8_step s ([], []) = (p, c)"
    by (cases "foldr utf8_step s ([], [])")
  from Cons.IH [OF pc] have whole: "p @ concat c = s" .
  show ?case
  proof (cases "is_cont b")
    case True
    with Cons.prems pc have "pend = b # p" "cs = c" by simp_all
    with whole show ?thesis by simp
  next
    case False
    with Cons.prems pc have "pend = []" "cs = (b # p) # c" by simp_all
    with whole show ?thesis by simp
  qed
qed

lemma concat_utf8_chars: "concat (utf8_chars s) = s"
proof -
  obtain p c where pc: "foldr utf8_step s ([], []) = (p, c)"
    by (cases "foldr utf8_step s ([], [])")
  from foldr_utf8_step [OF pc] show ?thesis
    by (cases "p = []") (auto simp: utf8_chars_def pc)
qed

lemma set_strip: "set (strip s) \<subseteq> set s"
proof -
  have "set (strip s) \<subseteq> set (concat (utf8_chars s))"
    unfolding strip_def by (auto dest!: set_dropWhileD)
  then show ?thesis by (simp only: concat_utf8_chars)
qed

lemma normalize_strip: "normalize_recipient t = [] \<Longrightarrow> normalize_recipient (strip t) = []"
  using set_strip [of t] by (auto simp: normalize_recipient_def filter_empty_conv)

lemma after_post_texts:
  "TextMessage x \<in> set (fst (after_post repr to res)) \<Longrightarrow> take 1 x = ''s'' \<or> take 1 x = ''F''"
  by (auto simp: after_post_def summary_def Let_def split: sum.splits option.splits if_splits)

text \<open>
  C10, as the tool behaves. With both credentials and \<^verbatim>\<open>text\<close> non-empty after
  stripping: when \<^verbatim>\<open>to\<close> is non-empty after stripping whitespace and holds no decimal
  digit, the tool yields no missing-parameter error and issues the POST, with the
  empty string as recipient.
\<close>

theorem check_before_normalization:
  assumes "get_stripped credentials ''access_token'' \<noteq> []"
    and "get_stripped credentials ''phone_number_id'' \<noteq> []"
    and "get_stripped tool_parameters ''text'' \<noteq> []"
    and "tool_parameters ''to'' = Some t" and "strip t \<noteq> []" and "normalize_recipient t = []"
  shows "TextMessage ''Missing required parameters: to, text''
           \<notin> set (fst (send_message_invoke repr post credentials tool_parameters)) \<and>
         snd (send_message_invoke repr post credentials tool_parameters) =
           [\<lparr>req_url = messages_url (get_stripped credentials ''phone_number_id''),
             req_headers = send_headers (get_stripped credentials ''access_token''),
             req_json = text_payload (JStr []) (JStr (get_stripped tool_parameters ''text'')),
             req_timeout = 20\<rparr>]"
proof -
  have to_raw: "get_stripped tool_parameters ''to'' = strip t"
    using assms(4) by (simp add: get_stripped_def)
  have norm: "normalize_recipient (strip t) = []"
    using assms(6) by (rule normalize_strip)
  let ?req = "\<lparr>req_url = messages_url (get_stripped credentials ''phone_number_id''),
             req_headers = send_headers (get_stripped credentials ''access_token''),
             req_json = text_payload (JStr []) (JStr (get_stripped tool_parameters ''text'')),
             req_timeout = 20\<rparr>"
  obtain ms e where ap: "after_post repr [] (post ?req) = (ms, e)"
    by (cases "after_post repr [] (post ?req)")
  have no: "TextMessage ''Missing required parameters: to, text'' \<notin> set ms"
    using after_post_texts [of "''Missing required parameters: to, text''" repr "[]" "post ?req"] ap
    by auto
  show ?thesis
    using assms(1,2,3,5) no ap
    by (cases e) (simp_all add: send_message_invoke_def Let_def norm to_raw)
qed

theorem check_before_normalization_witness:
  "letters_to ''to'' = Some ''abc'' \<and> strip ''abc'' \<noteq> [] \<and> normalize_recipient ''abc'' = [] \<and>
   TextMessage ''Missing required parameters: to, text''
     \<notin> set (fst (send_message_invoke repr_none post_accepted credentials_ok letters_to)) \<and>
   snd (send_message_invoke repr_none post_accepted credentials_ok letters_to) =
     [\<lparr>req_url = ''https://graph.facebook.com/v24.0/1234/messages'',
       req_headers = [(''Authorization'', ''Bearer token''), (''Content-Type'', ''application/json'')],
       req_json = text_payload (JStr []) (JStr ''hello''),
       req_timeout = 20\<rparr>]"
proof -
  have h1: "get_stripped credentials_ok ''access_token'' \<noteq> []"
    and h2: "get_stripped credentials_ok ''phone_number_id'' \<noteq> []"
    and h3: "get_stripped letters_to ''text'' \<noteq> []"
    by (simp_all add: stripped_samples)
  have h4: "letters_to ''to'' = Some ''abc''" by (simp add: letters_to_def)
  have h5: "strip ''abc'' \<noteq> []" by (simp add: strip_samples)
  have h6: "normalize_recipient ''abc'' = []"
    by (simp add: normalize_recipient_def is_digit_def in_range_def)
  show ?thesis
    using check_before_normalization [OF h1 h2 h3 h4 h5 h6, of repr_none post_accepted] h4 h5 h6
    by (simp add: stripped_samples messages_url_def send_headers_def)
qed

text \<open>
  C10 as stated fails when \<^verbatim>\<open>to\<close> is whitespace only: a single blank is non-empty and
  holds no digit, yet the tool reports the missing parameter and issues no POST.
\<close>

theorem blank_recipient_rejected:
  "blank_to ''to'' = Some '' '' \<and> '' '' \<noteq> [] \<and> normalize_recipient '' '' = [] \<and>
   send_message_invoke repr_none post_accepted credentials_ok blank_to =
     ([LogMessage ''parameters''
         (JObj [(''error'', JStr ''Missing required parameters''), (''to'', JBool False),
                (''text'', JBool True)])
         (Some ERROR),
       TextMessage ''Missing required parameters: to, text''], [])"
proof -
  have input: "blank_to ''to'' = Some '' ''" by (simp add: blank_to_def)
  have no_digit: "normalize_recipient '' '' = []"
    by (simp add: normalize_recipient_def is_digit_def in_range_def)
  have run: "send_message_invoke repr_none post_accepted credentials_ok blank_to =
     ([LogMessage ''parameters''
         (JObj [(''error'', JStr ''Missing required parameters''), (''to'', JBool False),
                (''text'', JBool True)])
         (Some ERROR),
       TextMessage ''Missing required parameters: to, text''], [])"
    by (simp add: send_message_invoke_def Let_def stripped_samples)
  from input no_digit run show ?thesis by simp
qed

subsection \<open>The remediation hint\<close>

lemma eq_190: "py_eq_int c 190 \<longleftrightarrow> c = JInt 190"
  by (cases c) auto

lemma eq_100: "py_eq_int c 100 \<longleftrightarrow> c = JInt 100"
  by (cases c) auto

lemma in_subcodes:
  "py_in_int_set s [2018049, 131000, 131031] =
     (if is_container s then Inl TypeError
      else Inr (s \<in> {JInt 2018049, JInt 131000, JInt 131031}))"
  by (cases s) auto

lemma list_ex_phrase: "list_ex (\<lambda>x. py_eq_str x s) xs \<longleftrightarrow> JStr s \<in> set xs"
proof (induction xs)
  case (Cons x xs)
  then show ?case by (cases x) auto
qed simp

lemma in_message:
  "py_in ''Unsupported post request'' (py_or m (JStr [])) =
     (if is_number m \<and> truthy m then Inl TypeError else Inr (contains_phrase m))"
  by (cases m) (auto simp: py_or_def list_ex_phrase)

lemma suggest_fix_fields:
  "suggest_fix (JObj [(''code'', c), (''type'', t), (''message'', m), (''error_subcode'', s)]) =
     (if lookup_raises c s m then Inl TypeError else Inr (table_hint c s m))"
  by (simp add: suggest_fix_def table_hint_def lookup_raises_def eq_190 eq_100 in_subcodes
      in_message Let_def)

lemma extract_shape:
  assumes "extract_api_error body = Inr (Some e)"
  shows "e = JObj [(''code'', field e ''code''), (''type'', field e ''type''),
                   (''message'', field e ''message''),
                   (''error_subcode'', field e ''error_subcode'')]"
proof -
  from assms obtain kvs v where b: "body = JObj kvs" "map_of kvs ''error'' = Some v"
    by (auto simp: extract_api_error_def split: json.splits option.splits)
  show ?thesis
  proof (cases "py_or v (JObj [])")
    case (JObj ekvs)
    with assms b show ?thesis by (auto simp: extract_api_error_def)
  qed (use assms b in \<open>auto simp: extract_api_error_def\<close>)
qed

text \<open>
  C8, as the lookup behaves. For every structured error extracted from a response
  body the hint is the one of the table, read in order: code 190, code 100, subcode
  among 2018049, 131000 and 131031, message containing \<^verbatim>\<open>Unsupported post request\<close>,
  generic. The exception: when the code is neither 190 nor 100 and the subcode is a
  list or a mapping, or the subcode is none of the three and the message is a number
  other than zero, the lookup raises and gives no hint.
\<close>

theorem hint_follows_table:
  assumes "extract_api_error body = Inr (Some api_error)"
  shows "suggest_fix api_error =
     (if lookup_raises (field api_error ''code'') (field api_error ''error_subcode'')
           (field api_error ''message'')
      then Inl TypeError
      else Inr (table_hint (field api_error ''code'') (field api_error ''error_subcode'')
             (field api_error ''message'')))"
proof -
  have "api_error = JObj [(''code'', field api_error ''code''), (''type'', field api_error ''type''),
                   (''message'', field api_error ''message''),
                   (''error_subcode'', field api_error ''error_subcode'')]"
    using assms(1) by (rule extract_shape)
  then show ?thesis using suggest_fix_fields by metis
qed

theorem hint_follows_table_witness:
  "extract_api_error (JObj [(''error'', JObj [(''code'', JInt 190), (''error_subcode'', JList [])])]) =
     Inr (Some (JObj [(''code'', JInt 190), (''type'', JNull), (''message'', JNull),
                      (''error_subcode'', JList [])])) \<and>
   suggest_fix (JObj [(''code'', JInt 190), (''type'', JNull), (''message'', JNull),
                      (''error_subcode'', JList [])]) = Inr hint_token"
proof -
  let ?e = "JObj [(''code'', JInt 190), (''type'', JNull), (''message'', JNull),
                  (''error_subcode'', JList [])]"
  have h1: "extract_api_error (JObj [(''error'', JObj [(''code'', JInt 190), (''error_subcode'', JList [])])]) = Inr (Some ?e)"
    by (simp add: extract_api_error_def py_or_def)
  show ?thesis
    using hint_follows_table [OF h1] h1 by (simp add: table_hint_def lookup_raises_def)
qed

text \<open>
  C8 as stated fails for an error whose subcode is a list, and for one whose message
  is the number 5: the membership tests raise, and no hint is produced.
\<close>

theorem ill_typed_fields_raise:
  "extract_api_error (JObj [(''error'', JObj [(''code'', JInt 1), (''error_subcode'', JList [])])]) =
     Inr (Some (JObj [(''code'', JInt 1), (''type'', JNull), (''message'', JNull),
                      (''error_subcode'', JList [])])) \<and>
   suggest_fix (JObj [(''code'', JInt 1), (''type'', JNull), (''message'', JNull),
                      (''error_subcode'', JList [])]) = Inl TypeError \<and>
   extract_api_error (JObj [(''error'', JObj [(''code'', JInt 1), (''message'', JInt 5)])]) =
     Inr (Some (JObj [(''code'', JInt 1), (''type'', JNull), (''message'', JInt 5),
                      (''error_subcode'', JNull)])) \<and>
   suggest_fix (JObj [(''code'', JInt 1), (''type'', JNull), (''message'', JInt 5),
                      (''error_subcode'', JNull)]) = Inl TypeError"
  by (simp add: extract_api_error_def suggest_fix_def py_or_def)

subsection \<open>Two scenarios of the specification\<close>

lemma scenario_d:
  "fst (send_message_invoke repr_none post_sent credentials_ok scenario_d_parameters) =
     [LogMessage ''send_request''
        (JObj [(''url'', JStr ''https://graph.facebook.com/v24.0/1234/messages''),
               (''to'', JStr ''15550100'')]) None,
      LogMessage ''send_response''
        (JObj [(''status_code'', JInt 200),
               (''body'', JObj [(''messages'', JList [JObj [(''id'', JStr ''wamid.X'')]])])])
        (Some SUCCESS),
      JsonMessage (JObj [(''result'', JStr ''sent''), (''to'', JStr ''15550100''),
                         (''response'', JObj [(''messages'', JList [JObj [(''id'', JStr ''wamid.X'')]])])]),
      TextMessage ''sent to 15550100 (id: wamid.X)'']"
proof -
  have p: "get_stripped scenario_d_parameters ''to'' = ''+1 555-0100''"
    "get_stripped scenario_d_parameters ''text'' = ''hello''"
    by (simp_all add: get_stripped_def scenario_d_parameters_def strip_def utf8_chars_def
        is_cont_def py_isspace_def)
  have n: "normalize_recipient ''+1 555-0100'' = ''15550100''"
    by (simp add: normalize_recipient_def is_digit_def in_range_def)
  show ?thesis
    by (simp add: send_message_invoke_def Let_def stripped_samples p n after_post_def
        post_sent_def safe_json_def summary_def wa_message_id_def py_or_def messages_url_def)
qed

lemma scenario_e:
  "last (fst (send_message_invoke repr_none post_expired credentials_ok letters_to)) =
     JsonMessage (JObj [(''error'', JObj [(''code'', JInt 190), (''type'', JNull),
                                          (''message'', JNull), (''error_subcode'', JNull)]),
                        (''hint'', JStr hint_token)])"
  by (simp add: send_message_invoke_def Let_def stripped_samples after_post_def post_expired_def
      safe_json_def extract_api_error_def suggest_fix_def py_or_def)

section \<open>Properties of the webhook endpoint\<close>

subsection \<open>The trace of one message\<close>

lemma emit_simps [simp]: "trace (emit e w) = trace w @ [e]" "store (emit e w) = store w"
  by (simp_all add: emit_def)

lemma posts_append [simp]: "posts (xs @ ys) = posts xs @ posts ys"
  by (induction xs rule: posts.induct) simp_all

lemma save_trace:
  "\<exists>evs. trace (save_conversation_id env key c w) = trace w @ evs \<and> posts evs = []"
  by (auto simp: save_conversation_id_def Let_def split: sum.splits)

lemma invoke_app_reply_trace:
  "\<exists>evs. trace (snd (invoke_app_reply env w a q i key)) = trace w @ evs \<and> posts evs = []"
proof (cases "chat_invoke env (build_invoke_params a q i (read_conversation_id env w key))")
  case (Inl e)
  then show ?thesis by (simp add: invoke_app_reply_def Let_def)
next
  case (Inr result)
  show ?thesis
  proof (cases result)
    case (JObj kvs)
    let ?w2 = "emit (ChatInvoke (build_invoke_params a q i (read_conversation_id env w key)))
                 (emit (StorageGet key) w)"
    let ?c = "case map_of kvs ''conversation_id'' of None \<Rightarrow> JNull | Some v \<Rightarrow> v"
    obtain evs where "trace (save_conversation_id env key ?c ?w2) = trace ?w2 @ evs" "posts evs = []"
      using save_trace by blast
    with Inr JObj show ?thesis by (simp add: invoke_app_reply_def Let_def)
  qed (use Inr in \<open>simp_all add: invoke_app_reply_def Let_def\<close>)
qed

lemma bridge_reply_trace:
  "\<exists>evs. trace (snd (bridge_reply env w app_id pid sender tb)) = trace w @ evs \<and> posts evs = []"
  using invoke_app_reply_trace by (auto simp: bridge_reply_def split: option.splits)

lemma process_message_text:
  assumes "py_get message ''from'' = Inr sender" "extract_text message = Inr tb"
    and "truthy sender" "tb \<noteq> JNull"
  shows "process_message env at pid app_id message w =
    (None, if at \<noteq> [] \<and> pid \<noteq> [] \<and> truthy (fallback (fst (bridge_reply env w app_id pid sender tb)) tb)
           then send_whatsapp_text at pid sender (fallback (fst (bridge_reply env w app_id pid sender tb)) tb)
                  (snd (bridge_reply env w app_id pid sender tb))
           else snd (bridge_reply env w app_id pid sender tb))"
  using assms by (simp add: process_message_def Let_def split: prod.splits)

lemma process_message_skip:
  assumes "py_get message ''from'' = Inl e \<or> extract_text message = Inl e \<or>
           (py_get message ''from'' = Inr sender \<and> extract_text message = Inr tb \<and> (\<not> truthy sender \<or> tb = JNull))"
  shows "snd (process_message env at pid app_id message w) = w"
  using assms by (auto simp: process_message_def split: sum.splits)

lemma from_field: "py_get message ''from'' = Inr sender \<Longrightarrow> field message ''from'' = sender"
  by (cases message) auto

lemma payload_fields [simp]:
  "field (text_payload to b) ''to'' = to"
  "field (field (text_payload to b) ''text'') ''body'' = b"
  by (simp_all add: text_payload_def)

lemma process_message_posts:
  "posts (new_events w (snd (process_message env at pid app_id message w))) = [] \<or>
   (\<exists>sender text_body. py_get message ''from'' = Inr sender \<and> extract_text message = Inr text_body \<and>
      truthy (fallback (fst (bridge_reply env w app_id pid sender text_body)) text_body) \<and>
      posts (new_events w (snd (process_message env at pid app_id message w))) =
        [\<lparr>req_url = messages_url pid, req_headers = send_headers at,
          req_json = text_payload sender (fallback (fst (bridge_reply env w app_id pid sender text_body)) text_body),
          req_timeout = 10\<rparr>])"
proof (cases "py_get message ''from''")
  case (Inl e)
  then show ?thesis using process_message_skip [of message e] by (simp add: new_events_def)
next
  case sender: (Inr sender)
  show ?thesis
  proof (cases "extract_text message")
    case (Inl e)
    then show ?thesis using process_message_skip [of message e] by (simp add: new_events_def)
  next
    case tb: (Inr tb)
    show ?thesis
    proof (cases "truthy sender \<and> tb \<noteq> JNull")
      case False
      with sender tb show ?thesis
        using process_message_skip [of message AttributeError sender tb] by (simp add: new_events_def)
    next
      case True
      obtain evs where evs: "trace (snd (bridge_reply env w app_id pid sender tb)) = trace w @ evs" "posts evs = []"
        using bridge_reply_trace by blast
      from True have pm: "process_message env at pid app_id message w =
        (None, if at \<noteq> [] \<and> pid \<noteq> [] \<and> truthy (fallback (fst (bridge_reply env w app_id pid sender tb)) tb)
           then send_whatsapp_text at pid sender (fallback (fst (bridge_reply env w app_id pid sender tb)) tb)
                  (snd (bridge_reply env w app_id pid sender tb))
           else snd (bridge_reply env w app_id pid sender tb))"
        using process_message_text [OF sender tb] by simp
      show ?thesis
      proof (cases "at \<noteq> [] \<and> pid \<noteq> [] \<and> truthy (fallback (fst (bridge_reply env w app_id pid sender tb)) tb)")
        case False
        with pm evs show ?thesis by (simp add: new_events_def)
      next
        case True
        with pm evs sender tb show ?thesis by (simp add: new_events_def send_whatsapp_text_def)
      qed
    qed
  qed
qed

subsection \<open>Requests that carry no event\<close>

lemma payload_without_entry:
  assumes "\<not> truthy p \<or> py_in ''entry'' p = Inr False"
  shows "handle_webhook envs s (Json p) w = (Inr ok, w)"
  using assms by (auto simp: handle_webhook_def get_json_silent_def py_or_def Let_def)

lemma webhook_raises_iff:
  "fst (handle_webhook envs s b w) = Inl e \<longleftrightarrow>
     e = TypeError \<and> ((\<exists>i. b = Json (JInt i) \<and> i \<noteq> 0) \<or> b = Json (JBool True))"
proof (cases b)
  case (Json p)
  then show ?thesis
    by (cases p) (auto simp: handle_webhook_def get_json_silent_def py_or_def Let_def
        split: sum.splits)
qed (auto simp: handle_webhook_def get_json_silent_def py_or_def Let_def)

text \<open>
  C1, at the input where the handler departs from it. A POST whose body is not
  parseable as JSON is answered with 200 and \<^verbatim>\<open>ok\<close>, not with 400: the \<^verbatim>\<open>silent\<close> flag
  turns the parse failure into \<^verbatim>\<open>None\<close>, which the handler reads as an empty payload.
  Nothing else is done: the store and the trace are as before.
\<close>

theorem unparseable_body_gets_ok:
  "endpoint_invoke envs s (post_request NotJson) w =
     (Inr \<lparr>content = ''ok'', status = 200, content_type = ''text/plain''\<rparr>, w)"
  by (simp add: endpoint_invoke_def post_request_def handle_webhook_def get_json_silent_def
      py_or_def ok_def)

text \<open>
  C5, at the input where the handler departs from it. A POST whose body is the JSON
  number 5 has no \<^verbatim>\<open>entry\<close>; the test \<^verbatim>\<open>'entry' not in payload\<close> raises on it, outside
  the \<^verbatim>\<open>try\<close>, and the handler ends with the exception instead of a response.
\<close>

theorem scalar_payload_raises:
  "endpoint_invoke envs s (post_request (Json (JInt 5))) w = (Inl TypeError, w)"
  by (simp add: endpoint_invoke_def post_request_def handle_webhook_def get_json_silent_def
      py_or_def)

subsection \<open>The App Bridge\<close>

lemma truthy_not_null: "truthy x \<Longrightarrow> x \<noteq> JNull"
  by auto

text \<open>
  C3, as the bridge behaves. For every response mapping, the reply is the text of
  the first of \<^verbatim>\<open>answer\<close>, \<^verbatim>\<open>output_text\<close>, \<^verbatim>\<open>message\<close> whose value is truthy; when none
  is truthy it is the text of the value of \<^verbatim>\<open>message\<close>, and absent when \<^verbatim>\<open>message\<close> is
  absent.
\<close>

theorem reply_is_first_truthy:
  assumes "chat_invoke env (build_invoke_params app_id query identify_inputs
             (read_conversation_id env w conversation_key)) = Inr (JObj kvs)"
  shows "fst (invoke_app_reply env w app_id query identify_inputs conversation_key)
         = first_truthy (py_repr env) (JObj kvs)"
  using assms
  by (auto simp: invoke_app_reply_def Let_def py_or_def first_truthy_def dest: truthy_not_null)

theorem reply_is_first_truthy_witness:
  "chat_invoke hello_env (build_invoke_params ''app-1'' (JStr ''hi'') (JObj [])
      (read_conversation_id hello_env empty_world ''key'')) =
     Inr (JObj [(''answer'', JStr ''hello''), (''conversation_id'', JStr ''c-1'')]) \<and>
   fst (invoke_app_reply hello_env empty_world ''app-1'' (JStr ''hi'') (JObj []) ''key'') =
     Some ''hello''"
proof -
  have h: "chat_invoke hello_env (build_invoke_params ''app-1'' (JStr ''hi'') (JObj [])
      (read_conversation_id hello_env empty_world ''key'')) =
     Inr (JObj [(''answer'', JStr ''hello''), (''conversation_id'', JStr ''c-1'')])"
    by (simp add: hello_env_def)
  show ?thesis
    using reply_is_first_truthy [OF h] h by (simp add: first_truthy_def hello_env_def)
qed

text \<open>
  C3 as stated fails when a field is present with a falsy value: with \<^verbatim>\<open>answer\<close> the
  empty string and \<^verbatim>\<open>output_text\<close> filled, the reply is the \<^verbatim>\<open>output_text\<close>.
\<close>

theorem present_answer_does_not_win:
  "fst (invoke_app_reply blank_answer_env empty_world ''app-1'' (JStr ''hi'') (JObj []) ''key'') =
     Some ''second''"
  by (simp add: invoke_app_reply_def blank_answer_env_def Let_def py_or_def)

lemma save_store:
  assumes "truthy v" and "valid_utf8 (py_str (py_repr env) v)" and "\<not> storage_set_raises env"
  shows "store (save_conversation_id env key v w) key = Some (py_str (py_repr env) v)"
  using assms by (simp add: save_conversation_id_def encode_utf8_def Let_def)

lemma read_stored:
  assumes "store w key = Some cid" and "valid_utf8 cid" and "cid \<noteq> []"
    and "\<not> storage_get_raises env"
  shows "read_conversation_id env w key = Some cid"
  using assms by (simp add: read_conversation_id_def decode_utf8_def)

lemma invoke_first_events:
  "take 2 (new_events w (snd (invoke_app_reply env w a q i key))) =
     [StorageGet key, ChatInvoke (build_invoke_params a q i (read_conversation_id env w key))]"
  by (auto simp: new_events_def invoke_app_reply_def Let_def save_conversation_id_def
      split: sum.splits json.splits)

text \<open>
  C2, as the bridge behaves. Let the App answer the first invocation for a
  conversation key with a mapping whose \<^verbatim>\<open>conversation_id\<close> is truthy and whose text
  (the identifier itself for a string, \<^verbatim>\<open>str\<close> of it otherwise) is non-empty and has
  a UTF-8 encoding, and let the store accept the write and serve the next read. Then
  the store holds that text under the key, and a second invocation for the key reads
  the store and invokes the App with that text as \<^verbatim>\<open>conversation_id\<close>.
\<close>

theorem continuity_round_trip:
  assumes first: "chat_invoke env1 (build_invoke_params app_id query1 inputs1
                     (read_conversation_id env1 w key)) = Inr (JObj kvs)"
    and token: "map_of kvs ''conversation_id'' = Some v" "truthy v"
      "cid = py_str (py_repr env1) v" "cid \<noteq> []" "valid_utf8 cid"
    and store_ok: "\<not> storage_set_raises env1" "\<not> storage_get_raises env2"
    and w1: "w1 = snd (invoke_app_reply env1 w app_id query1 inputs1 key)"
    and w2: "w2 = snd (invoke_app_reply env2 w1 app_id query2 inputs2 key)"
  shows "store w1 key = Some cid \<and>
         take 2 (new_events w1 w2) =
           [StorageGet key, ChatInvoke (build_invoke_params app_id query2 inputs2 (Some cid))] \<and>
         field (build_invoke_params app_id query2 inputs2 (Some cid)) ''conversation_id'' = JStr cid"
proof -
  have "w1 = save_conversation_id env1 key v
               (emit (ChatInvoke (build_invoke_params app_id query1 inputs1
                                    (read_conversation_id env1 w key)))
                  (emit (StorageGet key) w))"
    using first token(1) by (simp add: w1 invoke_app_reply_def Let_def)
  moreover have "valid_utf8 (py_str (py_repr env1) v)"
    using token(3,5) by simp
  ultimately have stored: "store w1 key = Some cid"
    using save_store [OF token(2) _ store_ok(1)] token(3) by simp
  have "read_conversation_id env2 w1 key = Some cid"
    using stored token(5,4) store_ok(2) by (rule read_stored)
  then have second: "take 2 (new_events w1 w2) =
      [StorageGet key, ChatInvoke (build_invoke_params app_id query2 inputs2 (Some cid))]"
    using invoke_first_events [of w1 env2 app_id query2 inputs2 key] by (simp add: w2)
  have "field (build_invoke_params app_id query2 inputs2 (Some cid)) ''conversation_id'' = JStr cid"
    using token(4) by (simp add: build_invoke_params_def)
  with stored second show ?thesis by blast
qed

lemma valid_c1: "valid_utf8 ''c-1''"
  by (simp add: valid_utf8_def utf8_chars_def is_cont_def in_range_def)

theorem continuity_round_trip_witness:
  "store (snd (invoke_app_reply hello_env empty_world ''app-1'' (JStr ''hi'') (JObj [])
                 ''whatsapp:1234:1555'')) ''whatsapp:1234:1555'' = Some ''c-1'' \<and>
   take 2 (new_events
     (snd (invoke_app_reply hello_env empty_world ''app-1'' (JStr ''hi'') (JObj [])
             ''whatsapp:1234:1555''))
     (snd (invoke_app_reply hello_env
             (snd (invoke_app_reply hello_env empty_world ''app-1'' (JStr ''hi'') (JObj [])
                     ''whatsapp:1234:1555''))
             ''app-1'' (JStr ''again'') (JObj []) ''whatsapp:1234:1555''))) =
     [StorageGet ''whatsapp:1234:1555'',
      ChatInvoke (JObj [(''app_id'', JStr ''app-1''), (''query'', JStr ''again''),
                        (''inputs'', JObj []), (''response_mode'', JStr ''blocking''),
                        (''conversation_id'', JStr ''c-1'')])]"
proof -
  have h1: "chat_invoke hello_env (build_invoke_params ''app-1'' (JStr ''hi'') (JObj [])
               (read_conversation_id hello_env empty_world ''whatsapp:1234:1555'')) =
            Inr (JObj [(''answer'', JStr ''hello''), (''conversation_id'', JStr ''c-1'')])"
    by (simp add: hello_env_def)
  have h2: "map_of [(''answer'', JStr ''hello''), (''conversation_id'', JStr ''c-1'')]
              ''conversation_id'' = Some (JStr ''c-1'')"
    by simp
  have h3: "truthy (JStr ''c-1'')" by simp
  have h4: "''c-1'' = py_str (py_repr hello_env) (JStr ''c-1'')" by simp
  have h5: "''c-1'' \<noteq> []" by simp
  have h7: "\<not> storage_set_raises hello_env" and h8: "\<not> storage_get_raises hello_env"
    by (simp_all add: hello_env_def)
  show ?thesis
    using continuity_round_trip [OF h1 h2 h3 h4 h5 valid_c1 h7 h8 refl refl,
        of "JStr ''again''" "JObj []"]
    by (simp add: build_invoke_params_def)
qed

text \<open>
  C2 as stated fails for an identifier that cannot be encoded, a lone surrogate: the
  write is skipped, the store stays empty, and the second invocation carries no
  \<^verbatim>\<open>conversation_id\<close>. It fails as well for the identifier 0, which is falsy and is
  not written.
\<close>

theorem unencodable_identifier_not_persisted:
  "store (snd (invoke_app_reply surrogate_env empty_world ''app-1'' (JStr ''hi'') (JObj [])
                 ''whatsapp:1234:1555'')) ''whatsapp:1234:1555'' = None \<and>
   take 2 (new_events
     (snd (invoke_app_reply surrogate_env empty_world ''app-1'' (JStr ''hi'') (JObj [])
             ''whatsapp:1234:1555''))
     (snd (invoke_app_reply surrogate_env
             (snd (invoke_app_reply surrogate_env empty_world ''app-1'' (JStr ''hi'') (JObj [])
                     ''whatsapp:1234:1555''))
             ''app-1'' (JStr ''again'') (JObj []) ''whatsapp:1234:1555''))) =
     [StorageGet ''whatsapp:1234:1555'',
      ChatInvoke (JObj [(''app_id'', JStr ''app-1''), (''query'', JStr ''again''),
                        (''inputs'', JObj []), (''response_mode'', JStr ''blocking'')])] \<and>
   store (snd (invoke_app_reply zero_id_env empty_world ''app-1'' (JStr ''hi'') (JObj [])
                 ''whatsapp:1234:1555'')) ''whatsapp:1234:1555'' = None"
proof -
  have bad: "\<not> valid_utf8 [CHR 0xED, CHR 0xA0, CHR 0x80]"
    by (simp add: valid_utf8_def utf8_chars_def is_cont_def in_range_def)
  have first: "snd (invoke_app_reply surrogate_env empty_world ''app-1'' (JStr ''hi'') (JObj [])
                 ''whatsapp:1234:1555'') =
     \<lparr>store = Map.empty,
      trace = [StorageGet ''whatsapp:1234:1555'',
               ChatInvoke (build_invoke_params ''app-1'' (JStr ''hi'') (JObj []) None)]\<rparr>"
    by (simp add: invoke_app_reply_def surrogate_env_def empty_world_def read_conversation_id_def
        save_conversation_id_def encode_utf8_def bad emit_def Let_def)
  have zero: "store (snd (invoke_app_reply zero_id_env empty_world ''app-1'' (JStr ''hi'') (JObj [])
                 ''whatsapp:1234:1555'')) ''whatsapp:1234:1555'' = None"
    by (simp add: invoke_app_reply_def zero_id_env_def empty_world_def read_conversation_id_def
        save_conversation_id_def emit_def Let_def)
  show ?thesis
    unfolding first using zero
    by (simp add: invoke_app_reply_def surrogate_env_def read_conversation_id_def
        save_conversation_id_def encode_utf8_def bad emit_def Let_def new_events_def
        build_invoke_params_def)
qed

subsection \<open>The reply to one message\<close>

text \<open>
  C4. For a message with a sender and a text body, when the App Bridge gives no
  reply (no App configured, the invocation failed) or an empty one, the reply text
  is the inbound text body itself, and it is what the outbound send carries.
\<close>

theorem echo_fallback:
  assumes "py_get message ''from'' = Inr sender_wa_id" and "truthy sender_wa_id"
    and "extract_text message = Inr text_body" and "text_body \<noteq> JNull"
    and "bridge_reply env w app_id phone_number_id sender_wa_id text_body = (reply, w1)"
    and "reply = None \<or> reply = Some []"
  shows "fallback reply text_body = text_body \<and>
         process_message env access_token phone_number_id app_id message w =
           (None, if access_token \<noteq> [] \<and> phone_number_id \<noteq> [] \<and> truthy text_body
                  then send_whatsapp_text access_token phone_number_id sender_wa_id text_body w1
                  else w1)"
  using assms by (auto simp: process_message_def fallback_def Let_def)

lemma text_message_parts:
  "py_get (text_message t) ''from'' = Inr (JStr ''1555'')"
  "extract_text (text_message t) = Inr (JStr t)"
  "field (text_message t) ''from'' = JStr ''1555''"
  by (simp_all add: text_message_def extract_text_def py_or_def)

lemma failing_bridge:
  "bridge_reply failing_env empty_world (Some ''app-1'') ''1234'' (JStr ''1555'') (JStr ''hi'') =
     (None, \<lparr>store = Map.empty,
              trace = [StorageGet ''whatsapp:1234:1555'',
                       ChatInvoke (JObj [(''app_id'', JStr ''app-1''), (''query'', JStr ''hi''),
                         (''inputs'', JObj [(''whatsapp_user_id'', JStr ''1555''),
                                            (''phone_number_id'', JStr ''1234'')]),
                         (''response_mode'', JStr ''blocking'')])]\<rparr>)"
  by (simp add: bridge_reply_def invoke_app_reply_def failing_env_def empty_world_def
      read_conversation_id_def conversation_key_of_def build_invoke_params_def emit_def Let_def)

theorem echo_fallback_witness:
  "process_message failing_env ''token'' ''1234'' (Some ''app-1'') (text_message ''hi'') empty_world =
     (None, \<lparr>store = Map.empty,
              trace = [StorageGet ''whatsapp:1234:1555'',
                       ChatInvoke (JObj [(''app_id'', JStr ''app-1''), (''query'', JStr ''hi''),
                         (''inputs'', JObj [(''whatsapp_user_id'', JStr ''1555''),
                                            (''phone_number_id'', JStr ''1234'')]),
                         (''response_mode'', JStr ''blocking'')]),
                       HttpPost \<lparr>req_url = messages_url ''1234'',
                                 req_headers = send_headers ''token'',
                                 req_json = text_payload (JStr ''1555'') (JStr ''hi''),
                                 req_timeout = 10\<rparr>]\<rparr>)"
proof -
  have h2: "truthy (JStr ''1555'')" and h4: "JStr ''hi'' \<noteq> JNull" by simp_all
  have h6: "(None :: string option) = None \<or> None = Some []" by simp
  show ?thesis
    using echo_fallback [OF text_message_parts(1) h2 text_message_parts(2) h4 failing_bridge h6,
        of "''token''"]
    by (simp add: send_whatsapp_text_def emit_def)
qed

text \<open>
  C9, as the pipeline behaves. Every outbound send made for a message has a truthy
  (non-empty) body and that message's \<^verbatim>\<open>from\<close> as recipient. A text message whose body
  is the empty string triggers no send when the App Bridge gives no reply or an empty
  one; with no App configured it triggers nothing at all.
\<close>

theorem send_invariant:
  "(\<forall>req \<in> set (posts (new_events w (snd (process_message env access_token phone_number_id app_id message w)))).
      field (req_json req) ''to'' = field message ''from'' \<and>
      truthy (field (field (req_json req) ''text'') ''body'')) \<and>
   (extract_text message = Inr (JStr []) \<and>
    (fst (bridge_reply env w app_id phone_number_id (field message ''from'') (JStr [])) = None \<or>
     fst (bridge_reply env w app_id phone_number_id (field message ''from'') (JStr [])) = Some []) \<longrightarrow>
      posts (new_events w (snd (process_message env access_token phone_number_id app_id message w))) = []) \<and>
   (extract_text message = Inr (JStr []) \<and> app_id = None \<longrightarrow>
      snd (process_message env access_token phone_number_id app_id message w) = w)"
proof -
  let ?new = "posts (new_events w (snd (process_message env access_token phone_number_id app_id message w)))"
  have one: "\<forall>req \<in> set ?new. field (req_json req) ''to'' = field message ''from'' \<and>
      truthy (field (field (req_json req) ''text'') ''body'')"
    using process_message_posts [of w env access_token phone_number_id app_id message] by (auto simp: from_field)
  have two: "extract_text message = Inr (JStr []) \<and>
    (fst (bridge_reply env w app_id phone_number_id (field message ''from'') (JStr [])) = None \<or>
     fst (bridge_reply env w app_id phone_number_id (field message ''from'') (JStr [])) = Some []) \<longrightarrow> ?new = []"
    using process_message_posts [of w env access_token phone_number_id app_id message] by (auto simp: from_field fallback_def)
  have three: "extract_text message = Inr (JStr []) \<and> app_id = None \<longrightarrow>
      snd (process_message env access_token phone_number_id app_id message w) = w"
    by (auto simp: process_message_def bridge_reply_def fallback_def Let_def split: sum.splits)
  from one two three show ?thesis by blast
qed


lemma trace_empty_world: "trace empty_world = []"
  by (simp add: empty_world_def)

lemma hello_bridge:
  "bridge_reply hello_env empty_world (Some ''app-1'') ''1234'' (JStr ''1555'') (JStr t) =
     (Some ''hello'',
      \<lparr>store = [''whatsapp:1234:1555'' \<mapsto> ''c-1''],
        trace = [StorageGet ''whatsapp:1234:1555'',
                 ChatInvoke (JObj [(''app_id'', JStr ''app-1''), (''query'', JStr t),
                   (''inputs'', JObj [(''whatsapp_user_id'', JStr ''1555''),
                                      (''phone_number_id'', JStr ''1234'')]),
                   (''response_mode'', JStr ''blocking'')]),
                 StorageSet ''whatsapp:1234:1555'' ''c-1'']\<rparr>)"
  by (simp add: bridge_reply_def invoke_app_reply_def hello_env_def empty_world_def
      read_conversation_id_def conversation_key_of_def build_invoke_params_def
      save_conversation_id_def encode_utf8_def valid_c1 emit_def py_or_def Let_def)

lemma hello_message:
  "process_message hello_env ''token'' ''1234'' (Some ''app-1'') (text_message t) empty_world =
     (None,
      \<lparr>store = [''whatsapp:1234:1555'' \<mapsto> ''c-1''],
        trace = [StorageGet ''whatsapp:1234:1555'',
                 ChatInvoke (JObj [(''app_id'', JStr ''app-1''), (''query'', JStr t),
                   (''inputs'', JObj [(''whatsapp_user_id'', JStr ''1555''),
                                      (''phone_number_id'', JStr ''1234'')]),
                   (''response_mode'', JStr ''blocking'')]),
                 StorageSet ''whatsapp:1234:1555'' ''c-1'',
                 HttpPost \<lparr>req_url = messages_url ''1234'',
                           req_headers = send_headers ''token'',
                           req_json = text_payload (JStr ''1555'') (JStr ''hello''),
                           req_timeout = 10\<rparr>]\<rparr>)"
  by (simp add: process_message_def text_message_parts hello_bridge fallback_def
      send_whatsapp_text_def emit_def Let_def)

theorem send_invariant_witness:
  "posts (new_events empty_world
     (snd (process_message hello_env ''token'' ''1234'' (Some ''app-1'') (text_message ''hi'')
             empty_world))) =
     [\<lparr>req_url = messages_url ''1234'', req_headers = send_headers ''token'',
       req_json = text_payload (JStr ''1555'') (JStr ''hello''), req_timeout = 10\<rparr>] \<and>
   field (text_payload (JStr ''1555'') (JStr ''hello'')) ''to'' = field (text_message ''hi'') ''from'' \<and>
   truthy (field (field (text_payload (JStr ''1555'') (JStr ''hello'')) ''text'') ''body'') \<and>
   extract_text (text_message []) = Inr (JStr []) \<and>
   snd (process_message hello_env ''token'' ''1234'' None (text_message []) empty_world) = empty_world"
proof -
  have sent: "posts (new_events empty_world
     (snd (process_message hello_env ''token'' ''1234'' (Some ''app-1'') (text_message ''hi'')
             empty_world))) =
     [\<lparr>req_url = messages_url ''1234'', req_headers = send_headers ''token'',
       req_json = text_payload (JStr ''1555'') (JStr ''hello''), req_timeout = 10\<rparr>]"
    by (simp add: hello_message new_events_def trace_empty_world)
  have empty: "extract_text (text_message []) = Inr (JStr [])"
    by (rule text_message_parts)
  show ?thesis
    using send_invariant [where w = empty_world and env = hello_env and access_token = "''token''"
        and phone_number_id = "''1234''" and app_id = "Some ''app-1''"
        and message = "text_message ''hi''"]
      send_invariant [where w = empty_world and env = hello_env and access_token = "''token''"
        and phone_number_id = "''1234''" and app_id = None and message = "text_message []"]
      sent empty
    by simp
qed

text \<open>
  C9 as stated fails in its last part: with an App configured, a text message whose
  body is the empty string is passed to the App, and the App's answer is sent.
\<close>

theorem empty_body_triggers_send:
  "extract_text (text_message []) = Inr (JStr []) \<and>
   posts (trace (snd (handle_webhook hello_envs bot_settings
                        (Json (event_payload (text_message []))) empty_world))) =
     [\<lparr>req_url = messages_url ''1234'', req_headers = send_headers ''token'',
       req_json = text_payload (JStr ''1555'') (JStr ''hello''), req_timeout = 10\<rparr>]"
proof -
  have settings: "get_stripped (config bot_settings) ''access_token'' = ''token''"
    "get_stripped (config bot_settings) ''phone_number_id'' = ''1234''"
    "get_app_id (app bot_settings) = Some ''app-1''"
    by (simp_all add: bot_settings_def stripped_samples get_app_id_def strip_samples)
  have walk: "process_entries hello_envs ''token'' ''1234'' (Some ''app-1'')
      [JObj [(''changes'', JList [JObj [(''value'',
             JObj [(''messages'', JList [text_message []])])]])]] empty_world =
    process_message hello_env ''token'' ''1234'' (Some ''app-1'') (text_message []) empty_world"
    by (simp add: process_entry_def process_change_def py_or_def hello_envs_def
        split: prod.splits option.splits)
  have "snd (handle_webhook hello_envs bot_settings (Json (event_payload (text_message [])))
          empty_world) =
        snd (process_message hello_env ''token'' ''1234'' (Some ''app-1'') (text_message [])
          empty_world)"
    by (simp add: handle_webhook_def get_json_silent_def event_payload_def py_or_def settings
        walk Let_def del: process_entries.simps)
  then show ?thesis by (simp add: hello_message text_message_parts)
qed

subsection \<open>When the bridge gives nothing, and a scenario of the specification\<close>

lemma bridge_absent:
  "bridge_reply env w None phone_number_id sender_wa_id text_body = (None, w)"
  "chat_invoke env (build_invoke_params a text_body
       (JObj [(''whatsapp_user_id'', sender_wa_id), (''phone_number_id'', JStr phone_number_id)])
       (read_conversation_id env w (conversation_key_of (py_repr env) phone_number_id sender_wa_id)))
     = Inl e \<Longrightarrow>
   fst (bridge_reply env w (Some a) phone_number_id sender_wa_id text_body) = None"
  by (simp_all add: bridge_reply_def invoke_app_reply_def Let_def)

lemma scenario_c:
  "handle_webhook echo_envs echo_settings (Json (event_payload (text_message ''hi''))) empty_world =
     (Inr \<lparr>content = ''ok'', status = 200, content_type = ''text/plain''\<rparr>,
      \<lparr>store = Map.empty,
       trace = [HttpPost \<lparr>req_url = ''https://graph.facebook.com/v24.0/1234/messages'',
                          req_headers = [(''Authorization'', ''Bearer token''),
                                         (''Content-Type'', ''application/json'')],
                          req_json = text_payload (JStr ''1555'') (JStr ''hi''),
                          req_timeout = 10\<rparr>]\<rparr>)"
proof -
  have settings: "get_stripped (config echo_settings) ''access_token'' = ''token''"
    "get_stripped (config echo_settings) ''phone_number_id'' = ''1234''"
    "get_app_id (app echo_settings) = None"
    by (simp_all add: echo_settings_def stripped_samples get_app_id_def)
  have message: "process_message failing_env ''token'' ''1234'' None (text_message ''hi'') empty_world =
    (None, send_whatsapp_text ''token'' ''1234'' (JStr ''1555'') (JStr ''hi'') empty_world)"
    by (simp add: process_message_def text_message_parts bridge_reply_def fallback_def)
  have walk: "process_entries echo_envs ''token'' ''1234'' None
      [JObj [(''changes'', JList [JObj [(''value'',
             JObj [(''messages'', JList [text_message ''hi''])])]])]] empty_world =
    (None, send_whatsapp_text ''token'' ''1234'' (JStr ''1555'') (JStr ''hi'') empty_world)"
    by (simp add: process_entry_def process_change_def py_or_def echo_envs_def message)
  have "handle_webhook echo_envs echo_settings (Json (event_payload (text_message ''hi''))) empty_world =
      (Inr ok, send_whatsapp_text ''token'' ''1234'' (JStr ''1555'') (JStr ''hi'') empty_world)"
    by (simp add: handle_webhook_def get_json_silent_def event_payload_def py_or_def settings
        walk Let_def del: process_entries.simps)
  then show ?thesis
    by (simp add: ok_def send_whatsapp_text_def emit_def empty_world_def messages_url_def
        send_headers_def)
qed

end
